theory Spec2Isabelle
  imports Complex_Main
begin

section \<open>The reachability probe (\<open>ServerManager.checkIfServerRunning\<close>)\<close>

text \<open>
  \<open>checkIfServerRunning(port)\<close> builds a promise whose executor calls
  \<open>http.request\<close> with \<open>hostname: '127.0.0.1'\<close>, the port and \<open>timeout: 1000\<close>, and
  registers three handlers: the response callback, \<open>'error'\<close> and \<open>'timeout'\<close>; each
  handler calls \<open>resolve\<close>. The promise is settled by the first call of \<open>resolve\<close> and
  ignores every later one. The executor has no \<open>try\<close>/\<open>catch\<close>: when \<open>http.request\<close>
  throws, the promise is rejected.

  A promise records when it was fulfilled, in milliseconds since it was created.
\<close>

datatype 'a promise = Pending | Resolved int 'a | Rejected string

definition resolve :: "int \<Rightarrow> 'a \<Rightarrow> 'a promise \<Rightarrow> 'a promise" where
  "resolve t v p =
     (case p of Pending \<Rightarrow> Resolved t v | Resolved s x \<Rightarrow> Resolved s x | Rejected e \<Rightarrow> Rejected e)"

text \<open>
  The port is a JavaScript number (the setting \<open>motia.serverPort\<close> has type \<open>number\<close>
  and no bounds). Node accepts it when it is an integer from 0 to 65535, and otherwise
  throws \<open>ERR_SOCKET_BAD_PORT\<close> from the call that opens the connection.
\<close>

definition valid_port :: "real \<Rightarrow> bool" where
  "valid_port p = (real_of_int \<lfloor>p\<rfloor> = p \<and> 0 \<le> p \<and> p \<le> 65535)"

text \<open>The request options of the source: \<open>timeout: 1000\<close> (milliseconds).\<close>

definition probe_timeout :: int where
  "probe_timeout = 1000"

datatype http_event = Response int | Request_error | Request_timeout

fun http_handler :: "int \<times> http_event \<Rightarrow> bool promise \<Rightarrow> bool promise" where
  "http_handler (t, Response statusCode) p =
     (if statusCode = 200 then resolve t True p else resolve t False p)"
| "http_handler (t, Request_error) p = resolve t False p"
| "http_handler (t, Request_timeout) p = resolve t False p"

fun deliver_http :: "(int \<times> http_event) list \<Rightarrow> bool promise \<Rightarrow> bool promise" where
  "deliver_http [] p = p"
| "deliver_http (e # es) p = deliver_http es (http_handler e p)"

text \<open>
  What the peer does is a parameter: a list of happenings on the connection, each
  with its time in milliseconds since the request was made. \<open>Bytes\<close> is traffic that
  completes no response, \<open>Reply\<close> a response with its status code, \<open>Failure\<close> a
  connection error, and \<open>Bytes_forever\<close> a peer that from then on keeps sending, never
  silent for as long as the timeout and never completing a response. The \<open>timeout\<close>
  option is an idle timer: it is restarted by every happening and fires when the
  connection has been silent for \<open>probe_timeout\<close>; then the handler destroys the
  request, which reports an error next. \<open>request_events\<close> gives the events the request
  emits.
\<close>

datatype happening = Bytes | Reply int | Failure | Bytes_forever

type_synonym trace = "(int \<times> happening) list"

fun request_events :: "int \<Rightarrow> trace \<Rightarrow> (int \<times> http_event) list" where
  "request_events deadline [] = [(deadline, Request_timeout), (deadline, Request_error)]"
| "request_events deadline ((t, h) # rest) =
     (if deadline \<le> t then [(deadline, Request_timeout), (deadline, Request_error)]
      else (case h of
              Bytes \<Rightarrow> request_events (t + probe_timeout) rest
            | Reply statusCode \<Rightarrow> (t, Response statusCode) # request_events (t + probe_timeout) rest
            | Failure \<Rightarrow> [(t, Request_error)]
            | Bytes_forever \<Rightarrow> []))"

definition falls_silent :: "trace \<Rightarrow> bool" where
  "falls_silent tr = list_all (\<lambda>(t, h). h \<noteq> Bytes_forever) tr"

definition checkIfServerRunning :: "(real \<Rightarrow> trace) \<Rightarrow> real \<Rightarrow> bool promise" where
  "checkIfServerRunning net port =
     (if valid_port port then deliver_http (request_events probe_timeout (net port)) Pending
      else Rejected ''ERR_SOCKET_BAD_PORT'')"

text \<open>
  When and with what the request settles the promise, for a peer that behaves as \<open>tr\<close>:
  the time and the kind of the first event the request emits.
\<close>

definition probe_time :: "trace \<Rightarrow> int" where
  "probe_time tr = (case deliver_http (request_events probe_timeout tr) Pending of
                      Resolved t b \<Rightarrow> t | _ \<Rightarrow> 0)"

definition probe_answer :: "trace \<Rightarrow> bool" where
  "probe_answer tr = (case deliver_http (request_events probe_timeout tr) Pending of
                        Resolved t b \<Rightarrow> b | _ \<Rightarrow> False)"

text \<open>
  The earlier revision of the same method probes with a raw socket:
  \<open>socket.setTimeout(1000)\<close>, \<open>socket.once('error', onError)\<close>,
  \<open>socket.once('timeout', onError)\<close> and the connect listener of \<open>socket.connect\<close>, which
  throws for a bad port like \<open>http.request\<close>. A \<open>once\<close> listener is removed when it has
  run; \<open>onError\<close> destroys the socket, after which it emits nothing more.
\<close>

datatype socket_event = Connect | Socket_error | Socket_timeout

record socket =
  on_error :: bool
  on_timeout :: bool
  on_connect :: bool
  destroyed :: bool
  result :: "bool promise"

definition new_socket :: socket where
  "new_socket = \<lparr>on_error = True, on_timeout = True, on_connect = True,
                 destroyed = False, result = Pending\<rparr>"

definition onError :: "int \<Rightarrow> socket \<Rightarrow> socket" where
  "onError t s = s\<lparr>destroyed := True, result := resolve t False (result s)\<rparr>"

fun socket_handler :: "int \<times> socket_event \<Rightarrow> socket \<Rightarrow> socket" where
  "socket_handler (t, Connect) s =
     (if destroyed s \<or> \<not> on_connect s then s
      else s\<lparr>on_connect := False, result := resolve t True (result s)\<rparr>)"
| "socket_handler (t, Socket_error) s =
     (if destroyed s \<or> \<not> on_error s then s else onError t (s\<lparr>on_error := False\<rparr>))"
| "socket_handler (t, Socket_timeout) s =
     (if destroyed s \<or> \<not> on_timeout s then s else onError t (s\<lparr>on_timeout := False\<rparr>))"

fun deliver_socket :: "(int \<times> socket_event) list \<Rightarrow> socket \<Rightarrow> socket" where
  "deliver_socket [] s = s"
| "deliver_socket (e # es) s = deliver_socket es (socket_handler e s)"

datatype socket_happening = Established | Broken

fun socket_events :: "int \<Rightarrow> (int \<times> socket_happening) list \<Rightarrow> (int \<times> socket_event) list" where
  "socket_events deadline [] = [(deadline, Socket_timeout)]"
| "socket_events deadline ((t, h) # rest) =
     (if deadline \<le> t then [(deadline, Socket_timeout)]
      else (case h of
              Established \<Rightarrow> (t, Connect) # socket_events (t + probe_timeout) rest
            | Broken \<Rightarrow> [(t, Socket_error)]))"

definition checkIfServerRunning_socket ::
  "(real \<Rightarrow> (int \<times> socket_happening) list) \<Rightarrow> real \<Rightarrow> bool promise" where
  "checkIfServerRunning_socket net port =
     (if valid_port port
      then result (deliver_socket (socket_events probe_timeout (net port)) new_socket)
      else Rejected ''ERR_SOCKET_BAD_PORT'')"

section \<open>The server manager on the event loop\<close>

text \<open>
  \<open>ServerManager\<close> keeps its state in static fields. Its methods are asynchronous:
  each runs until its next \<open>await\<close> or timer, and then any other pending piece of work
  may run. The model is a world and a step function: an event is a call of a public
  method, a change of the settings, the settling of the promise a call awaits, or the
  firing of a call's timer. A schedule (a list of events) is one interleaving.
\<close>

type_synonym call = nat

record manager =
  terminal :: "nat option"
  isRunning :: bool
  serverPort :: real
  serverStartTime :: int

definition maxStartupTime :: int where
  "maxStartupTime = 30000"


record settings =
  cfg_serverPort :: real
  cfg_nodejsPath :: string

datatype error = Invalid_nodejs_path | No_package_manager | Startup_timeout | Bad_port

datatype val = Bool_val bool | Void_val

datatype settled = Fulfilled val | Rejected_with error

text \<open>
  The command line sent to the terminal is
  \<open>[launcher] motia dev --verbose --port <port>\<close>; it is kept as its two variable parts.
\<close>

datatype launcher = Custom_npx string | Npx | Pnpm | Yarn

datatype message =
    Info_already_running real
  | Info_started real
  | Info_stopped
  | Info_none_running
  | Warn_still_running real
  | Error_startup_timeout
  | Error_no_package_manager

datatype effect =
    Show message
  | Create_terminal nat
  | Send_text nat launcher real
  | Show_terminal nat
  | Dispose_terminal nat
  | Probe real
  | Which string
  | Validate string
  | Open_workbench_after int
  | Uncaught_TypeError
  | Unhandled_rejection

text \<open>
  What a suspended call waits for, with the locals it has captured (\<open>nodejsPath\<close>,
  whether \<open>extensionUri\<close> was given, and the port already written into \<open>command\<close>).
\<close>

datatype cont =
    Start_validating string bool
  | Start_probing string bool
  | Start_which_npx bool real
  | Start_which_pnpm bool real
  | Start_which_yarn bool real
  | Poll_timer bool
  | Poll_probing bool
  | Stop_probing
  | IsRunning_probing

text \<open>\<open>probing w c\<close> is the port call \<open>c\<close> passed to its latest probe.\<close>

record world =
  mgr :: manager
  config :: settings
  live :: "nat list"
  fresh :: nat
  calls :: nat
  tasks :: "call \<Rightarrow> cont option"
  outcome :: "call \<Rightarrow> settled option"
  effects :: "effect list"
  probing :: "call \<Rightarrow> real option"

definition init_world :: "settings \<Rightarrow> world" where
  "init_world cfg =
     \<lparr>mgr = \<lparr>terminal = None, isRunning = False, serverPort = 3000, serverStartTime = 0\<rparr>,
      config = cfg, live = [], fresh = 0, calls = 0,
      tasks = (\<lambda>c. None), outcome = (\<lambda>c. None), effects = [], probing = (\<lambda>c. None)\<rparr>"

definition emit :: "effect \<Rightarrow> world \<Rightarrow> world" where
  "emit e w = w\<lparr>effects := effects w @ [e]\<rparr>"

definition suspend :: "call \<Rightarrow> cont \<Rightarrow> world \<Rightarrow> world" where
  "suspend c k w = w\<lparr>tasks := (tasks w)(c := Some k)\<rparr>"

definition settle :: "call \<Rightarrow> settled \<Rightarrow> world \<Rightarrow> world" where
  "settle c r w = w\<lparr>tasks := (tasks w)(c := None), outcome := (outcome w)(c := Some r)\<rparr>"

text \<open>
  An async executor that throws (or awaits a promise that rejects) outside any
  \<open>try\<close> calls neither \<open>resolve\<close> nor \<open>reject\<close>: the call is no longer pending work and
  its promise never settles.
\<close>

definition abandon :: "call \<Rightarrow> effect \<Rightarrow> world \<Rightarrow> world" where
  "abandon c e w = emit e (w\<lparr>tasks := (tasks w)(c := None)\<rparr>)"

text \<open>Call \<open>c\<close> evaluates \<open>this.checkIfServerRunning(this._serverPort)\<close>.\<close>

definition probe :: "call \<Rightarrow> world \<Rightarrow> world" where
  "probe c w =
     (emit (Probe (serverPort (mgr w))) w)
       \<lparr>probing := (probing w)(c := Some (serverPort (mgr w)))\<rparr>"

definition open_workbench :: "bool \<Rightarrow> int \<Rightarrow> world \<Rightarrow> world" where
  "open_workbench extensionUri delay w =
     (if extensionUri then emit (Open_workbench_after delay) w else w)"

subsection \<open>\<open>startServer\<close>\<close>

definition start_check_running :: "call \<Rightarrow> string \<Rightarrow> bool \<Rightarrow> world \<Rightarrow> world" where
  "start_check_running c nodejsPath extensionUri w =
     suspend c (Start_probing nodejsPath extensionUri) (probe c w)"

definition startServer :: "bool \<Rightarrow> world \<Rightarrow> world" where
  "startServer extensionUri w =
     (let c = calls w;
          w1 = w\<lparr>calls := Suc c, mgr := (mgr w)\<lparr>serverPort := cfg_serverPort (config w)\<rparr>\<rparr>;
          nodejsPath = cfg_nodejsPath (config w)
      in if nodejsPath \<noteq> []
         then suspend c (Start_validating nodejsPath extensionUri) (emit (Validate nodejsPath) w1)
         else start_check_running c nodejsPath extensionUri w1)"

text \<open>
  \<open>this._terminal.sendText(command)\<close> reads the static field again. When a
  \<open>stopServer\<close> has cleared it in the meantime, the read of \<open>sendText\<close> throws a
  TypeError inside the async executor.
\<close>

definition launch :: "call \<Rightarrow> launcher \<Rightarrow> real \<Rightarrow> bool \<Rightarrow> int \<Rightarrow> world \<Rightarrow> world" where
  "launch c l port extensionUri now w =
     (case terminal (mgr w) of
        None \<Rightarrow> abandon c Uncaught_TypeError w
      | Some t \<Rightarrow>
          suspend c (Poll_timer extensionUri)
            ((emit (Show_terminal t) (emit (Send_text t l port) w))
               \<lparr>mgr := (mgr w)\<lparr>serverStartTime := now\<rparr>\<rparr>))"

definition create_terminal :: "world \<Rightarrow> world" where
  "create_terminal w =
     emit (Create_terminal (fresh w))
       (w\<lparr>mgr := (mgr w)\<lparr>terminal := Some (fresh w)\<rparr>,
          live := live w @ [fresh w], fresh := Suc (fresh w)\<rparr>)"

definition start_after_probe :: "call \<Rightarrow> string \<Rightarrow> bool \<Rightarrow> bool \<Rightarrow> int \<Rightarrow> world \<Rightarrow> world" where
  "start_after_probe c nodejsPath extensionUri running now w =
     (if running
      then settle c (Fulfilled (Bool_val True))
             (open_workbench extensionUri 100
                ((emit (Show (Info_already_running (serverPort (mgr w)))) w)
                   \<lparr>mgr := (mgr w)\<lparr>isRunning := True\<rparr>\<rparr>))
      else (let w1 = create_terminal w; port = serverPort (mgr w1)
            in if nodejsPath \<noteq> [] then launch c (Custom_npx nodejsPath) port extensionUri now w1
               else suspend c (Start_which_npx extensionUri port) (emit (Which ''npx'') w1)))"

subsection \<open>\<open>_pollServerStatus\<close>\<close>

text \<open>The \<open>try\<close> block of \<open>checkServer\<close> after its probe has answered.\<close>

definition checkServer :: "call \<Rightarrow> bool \<Rightarrow> bool \<Rightarrow> int \<Rightarrow> world \<Rightarrow> world" where
  "checkServer c extensionUri running now w =
     (if running
      then settle c (Fulfilled (Bool_val True))
             (open_workbench extensionUri 500
                (emit (Show (Info_started (serverPort (mgr w))))
                   (w\<lparr>mgr := (mgr w)\<lparr>isRunning := True\<rparr>\<rparr>)))
      else if now - serverStartTime (mgr w) > maxStartupTime
      then settle c (Rejected_with Startup_timeout)
             ((emit (Show Error_startup_timeout) w)\<lparr>mgr := (mgr w)\<lparr>isRunning := False\<rparr>\<rparr>)
      else suspend c (Poll_timer extensionUri) w)"

text \<open>The \<open>catch\<close> block of \<open>checkServer\<close>: \<open>if (reject) reject(error)\<close>.\<close>

definition checkServer_catch :: "call \<Rightarrow> error \<Rightarrow> world \<Rightarrow> world" where
  "checkServer_catch c e w = settle c (Rejected_with e) w"

subsection \<open>\<open>stopServer\<close>, \<open>isServerRunning\<close>, \<open>getServerStatus\<close>\<close>

definition stopServer :: "world \<Rightarrow> world" where
  "stopServer w =
     (let c = calls w;
          w1 = w\<lparr>calls := Suc c\<rparr>;
          w2 = (case terminal (mgr w1) of
                  Some t \<Rightarrow>
                    emit (Show Info_stopped)
                      ((emit (Dispose_terminal t) w1)
                         \<lparr>live := removeAll t (live w1),
                          mgr := (mgr w1)\<lparr>terminal := None, isRunning := False\<rparr>\<rparr>)
                | None \<Rightarrow> emit (Show Info_none_running) w1)
      in suspend c Stop_probing (probe c w2))"

definition stop_after_probe :: "call \<Rightarrow> bool \<Rightarrow> world \<Rightarrow> world" where
  "stop_after_probe c isStillRunning w =
     settle c (Fulfilled Void_val)
       (if isStillRunning then emit (Show (Warn_still_running (serverPort (mgr w)))) w else w)"

definition isServerRunning :: "world \<Rightarrow> world" where
  "isServerRunning w =
     suspend (calls w) IsRunning_probing (probe (calls w) (w\<lparr>calls := Suc (calls w)\<rparr>))"

definition getServerStatus :: "world \<Rightarrow> bool" where
  "getServerStatus w = isRunning (mgr w)"

subsection \<open>Events and schedules\<close>

datatype event =
    Call_startServer bool
  | Call_stopServer
  | Call_isServerRunning
  | Update_settings settings
  | Settle call bool int
  | Timer call
  | Probed call trace int

text \<open>
  \<open>Settle c b now\<close>: the promise call \<open>c\<close> awaits is fulfilled with \<open>b\<close> at clock time
  \<open>now\<close>; \<open>resume\<close> is what the call does then. \<open>commandExists\<close> and \<open>validateNodejsPath\<close>
  catch their errors and are always fulfilled with a boolean. For a call that awaits
  a probe, whether the promise is fulfilled or rejected, and when, is what
  \<open>checkIfServerRunning\<close> gives (the event \<open>Probed\<close> below).
\<close>

definition resume :: "call \<Rightarrow> cont \<Rightarrow> bool \<Rightarrow> int \<Rightarrow> world \<Rightarrow> world" where
  "resume c k b now w =
     (case k of
        Start_validating nodejsPath uri \<Rightarrow>
          (if \<not> b then settle c (Rejected_with Invalid_nodejs_path) w
           else start_check_running c nodejsPath uri w)
      | Start_probing nodejsPath uri \<Rightarrow> start_after_probe c nodejsPath uri b now w
      | Start_which_npx uri port \<Rightarrow>
          (if b then launch c Npx port uri now w
           else suspend c (Start_which_pnpm uri port) (emit (Which ''pnpm'') w))
      | Start_which_pnpm uri port \<Rightarrow>
          (if b then launch c Pnpm port uri now w
           else suspend c (Start_which_yarn uri port) (emit (Which ''yarn'') w))
      | Start_which_yarn uri port \<Rightarrow>
          (if b then launch c Yarn port uri now w
           else settle c (Rejected_with No_package_manager)
                  (emit (Show Error_no_package_manager) w))
      | Poll_timer uri \<Rightarrow> w
      | Poll_probing uri \<Rightarrow> checkServer c uri b now w
      | Stop_probing \<Rightarrow> stop_after_probe c b w
      | IsRunning_probing \<Rightarrow> settle c (Fulfilled (Bool_val b)) w)"

text \<open>
  What a call does when the probe it awaits is rejected. \<open>isServerRunning\<close> returns the
  probe's promise itself; \<open>checkServer\<close> catches the error and rejects the start with
  it; \<open>startServer\<close> and \<open>stopServer\<close> await the probe in their async executor outside
  any \<open>try\<close>.
\<close>

definition probe_rejected :: "call \<Rightarrow> cont \<Rightarrow> world \<Rightarrow> world" where
  "probe_rejected c k w =
     (case k of
        Start_probing nodejsPath uri \<Rightarrow> abandon c Unhandled_rejection w
      | Poll_probing uri \<Rightarrow> checkServer_catch c Bad_port w
      | Stop_probing \<Rightarrow> abandon c Unhandled_rejection w
      | IsRunning_probing \<Rightarrow> settle c (Rejected_with Bad_port) w
      | _ \<Rightarrow> w)"

fun awaits_probe :: "cont \<Rightarrow> bool" where
  "awaits_probe (Start_probing nodejsPath uri) = True"
| "awaits_probe (Poll_probing uri) = True"
| "awaits_probe Stop_probing = True"
| "awaits_probe IsRunning_probing = True"
| "awaits_probe k = False"

text \<open>
  \<open>Probed c tr t0\<close>: the probe call \<open>c\<close> awaits was made at clock time \<open>t0\<close> and the peer
  behaves as \<open>tr\<close>. The probe's promise is the one \<open>checkIfServerRunning\<close> gives for the
  port the call passed; the call goes on when it settles.
\<close>

definition probe_done :: "call \<Rightarrow> trace \<Rightarrow> int \<Rightarrow> world \<Rightarrow> world" where
  "probe_done c tr t0 w =
     (case tasks w c of
        None \<Rightarrow> w
      | Some k \<Rightarrow>
          (if \<not> awaits_probe k then w
           else (case probing w c of
                   None \<Rightarrow> w
                 | Some port \<Rightarrow>
                     (case checkIfServerRunning (\<lambda>p. tr) port of
                        Pending \<Rightarrow> w
                      | Resolved t b \<Rightarrow> resume c k b (t0 + t) w
                      | Rejected x \<Rightarrow> probe_rejected c k w))))"

definition fire :: "call \<Rightarrow> world \<Rightarrow> world" where
  "fire c w =
     (case tasks w c of
        Some (Poll_timer uri) \<Rightarrow> suspend c (Poll_probing uri) (probe c w)
      | _ \<Rightarrow> w)"

fun step :: "event \<Rightarrow> world \<Rightarrow> world" where
  "step (Call_startServer uri) w = startServer uri w"
| "step Call_stopServer w = stopServer w"
| "step Call_isServerRunning w = isServerRunning w"
| "step (Update_settings cfg) w = w\<lparr>config := cfg\<rparr>"
| "step (Settle c b now) w =
     (case tasks w c of None \<Rightarrow> w | Some k \<Rightarrow> resume c k b now w)"
| "step (Timer c) w = fire c w"
| "step (Probed c tr t0) w = probe_done c tr t0 w"

fun run :: "event list \<Rightarrow> world \<Rightarrow> world" where
  "run [] w = w"
| "run (e # es) w = run es (step e w)"

definition probed :: "world \<Rightarrow> real list" where
  "probed w = concat (map (\<lambda>e. case e of Probe p \<Rightarrow> [p] | _ \<Rightarrow> []) (effects w))"

definition sent :: "world \<Rightarrow> (nat \<times> launcher \<times> real) list" where
  "sent w = concat (map (\<lambda>e. case e of Send_text t l p \<Rightarrow> [(t, l, p)] | _ \<Rightarrow> []) (effects w))"


subsection \<open>The promises \<open>startServer\<close> awaits besides the probe\<close>

text \<open>
  \<open>commandExists\<close> and \<open>validateNodejsPath\<close> wrap \<open>exec\<close> in \<open>try\<close>/\<open>catch\<close> and return a
  boolean. \<open>exec\<close> either yields the standard output or fails; \<open>fs.existsSync\<close> is the
  second argument of \<open>validateNodejsPath\<close>. The notifications the latter shows are left
  out: only its result reaches \<open>startServer\<close>. The standard output is a JavaScript
  string, a list of UTF-16 code units; \<open>trim\<close> strips the white space and line
  terminators of ECMAScript.
\<close>

datatype exec_result = Exec_ok "nat list" | Exec_failed

definition commandExists :: "exec_result \<Rightarrow> bool" where
  "commandExists r = (case r of Exec_ok out \<Rightarrow> True | Exec_failed \<Rightarrow> False)"



definition startsWith :: "'a list \<Rightarrow> 'a list \<Rightarrow> bool" where
  "startsWith s p = (take (length p) s = p)"


subsection \<open>A start call polling among other events\<close>







lemmas model_defs =
  emit_def suspend_def settle_def abandon_def probe_def open_workbench_def
  start_check_running_def startServer_def launch_def create_terminal_def start_after_probe_def
  checkServer_def checkServer_catch_def stopServer_def stop_after_probe_def isServerRunning_def
  getServerStatus_def resume_def probe_rejected_def probe_done_def fire_def

section \<open>Project detection (\<open>isMotiaProject\<close>)\<close>

text \<open>
  The file system is one snapshot taken when the function runs: for each workspace
  folder, what \<open>steps\<close> is and what reading and parsing \<open>package.json\<close> gives. A path
  that exists can be stat'ed.
\<close>

datatype json =
    JNull
  | JBool bool
  | JNumber int
  | JString string
  | JArray "json list"
  | JObject "(string \<times> json) list"

datatype js_error = SyntaxError | TypeError | IOError

datatype dir_entry = Missing | Plain_file | Directory

datatype manifest = No_manifest | Unreadable | Malformed | Parsed json

record folder =
  steps :: dir_entry
  package_json :: manifest

text \<open>\<open>fs.readFileSync\<close> followed by \<open>JSON.parse\<close>; either may throw.\<close>

fun read_manifest :: "manifest \<Rightarrow> js_error + json" where
  "read_manifest No_manifest = Inl IOError"
| "read_manifest Unreadable = Inl IOError"
| "read_manifest Malformed = Inl SyntaxError"
| "read_manifest (Parsed j) = Inr j"

text \<open>
  \<open>packageJson.dependencies\<close>: reading a property of \<open>null\<close> throws; an object gives
  the member or \<open>undefined\<close>; any other JSON value has no member of that name.
\<close>

fun member :: "json \<Rightarrow> string \<Rightarrow> js_error + json option" where
  "member JNull k = Inl TypeError"
| "member (JObject kvs) k = Inr (map_of kvs k)"
| "member j k = Inr None"

fun string_of_nat :: "nat \<Rightarrow> string" where
  "string_of_nat n =
     (if n < 10 then [''0123456789'' ! n]
      else string_of_nat (n div 10) @ [''0123456789'' ! (n mod 10)])"

text \<open>
  The own enumerable keys an object spread copies: the keys of an object, the indices
  of an array or of a string, nothing for \<open>undefined\<close>, \<open>null\<close>, a boolean or a number.
\<close>

fun spread_keys :: "json option \<Rightarrow> string list" where
  "spread_keys (Some (JObject kvs)) = map fst kvs"
| "spread_keys (Some (JArray xs)) = map string_of_nat [0..<length xs]"
| "spread_keys (Some (JString s)) = map string_of_nat [0..<length s]"
| "spread_keys j = []"

definition is_motia_dep :: "string \<Rightarrow> bool" where
  "is_motia_dep dep = (startsWith dep ''@motiadev/'' \<or> dep = ''motia'')"

text \<open>The body of the \<open>try\<close> block: \<open>Inl\<close> is the exception thrown inside it.\<close>

definition hasMotiaDependency :: "manifest \<Rightarrow> js_error + bool" where
  "hasMotiaDependency m =
     (case read_manifest m of
        Inl e \<Rightarrow> Inl e
      | Inr packageJson \<Rightarrow>
          (case member packageJson ''dependencies'' of
             Inl e \<Rightarrow> Inl e
           | Inr deps \<Rightarrow>
               (case member packageJson ''devDependencies'' of
                  Inl e \<Rightarrow> Inl e
                | Inr devDeps \<Rightarrow>
                    Inr (list_ex is_motia_dep (spread_keys deps @ spread_keys devDeps)))))"

fun check_folders :: "folder list \<Rightarrow> js_error + bool" where
  "check_folders [] = Inr False"
| "check_folders (f # fs) =
     (if steps f = Directory then Inr True
      else if package_json f \<noteq> No_manifest
      then (case hasMotiaDependency (package_json f) of
              Inl e \<Rightarrow> check_folders fs
            | Inr found \<Rightarrow> if found then Inr True else check_folders fs)
      else check_folders fs)"

definition isMotiaProject :: "folder list option \<Rightarrow> js_error + bool" where
  "isMotiaProject workspaceFolders =
     (case workspaceFolders of
        None \<Rightarrow> Inr False
      | Some fs \<Rightarrow> if length fs = 0 then Inr False else check_folders fs)"

section \<open>Concrete settings and schedules\<close>

definition default_settings :: settings where
  "default_settings = \<lparr>cfg_serverPort = 3000, cfg_nodejsPath = []\<rparr>"





section \<open>Properties of the probe\<close>

lemma resolve_settled [simp]: "resolve t v (Resolved s b) = Resolved s b"
  by (simp add: resolve_def)

lemma resolve_pending [simp]: "resolve t v Pending = Resolved t v"
  by (simp add: resolve_def)

lemma http_handler_settled: "http_handler (t, e) (Resolved s b) = Resolved s b"
  by (cases e) simp_all

lemma deliver_http_settled: "deliver_http es (Resolved s b) = Resolved s b"
proof (induction es)
  case Nil
  show ?case by simp
next
  case (Cons x es)
  then show ?case by (cases x) (simp add: http_handler_settled)
qed

lemma deliver_http_first:
  "deliver_http ((t, e) # es) Pending = Resolved t (e = Response 200)"
  by (cases e) (simp_all add: deliver_http_settled)

lemma request_events_silent:
  "deliver_http (request_events d []) Pending = Resolved d False"
  by (simp add: deliver_http_settled)

lemma request_events_late:
  "d \<le> t \<Longrightarrow> deliver_http (request_events d ((t, h) # rest)) Pending = Resolved d False"
  by (simp add: deliver_http_settled)

lemma request_events_failure:
  "t < d \<Longrightarrow> deliver_http (request_events d ((t, Failure) # rest)) Pending = Resolved t False"
  by simp

lemma request_events_reply:
  "t < d \<Longrightarrow>
   deliver_http (request_events d ((t, Reply code) # rest)) Pending = Resolved t (code = 200)"
  by (simp add: deliver_http_settled)

lemma request_settles:
  "falls_silent tr \<Longrightarrow> \<exists>t b. deliver_http (request_events d tr) Pending = Resolved t b"
proof (induction tr arbitrary: d)
  case Nil
  show ?case by (auto simp: deliver_http_settled)
next
  case (Cons x tr)
  obtain t h where x: "x = (t, h)" by (cases x)
  have q: "falls_silent tr" "h \<noteq> Bytes_forever"
    using Cons.prems x by (simp_all add: falls_silent_def)
  show ?case
  proof (cases "d \<le> t")
    case True
    then show ?thesis using x by (auto simp: deliver_http_settled)
  next
    case False
    then show ?thesis using x q(2) Cons.IH [OF q(1), of "t + probe_timeout"]
      by (cases h) (auto simp: deliver_http_settled)
  qed
qed

lemma http_handler_not_rejected:
  "\<forall>x. p \<noteq> Rejected x \<Longrightarrow> \<forall>x. http_handler (t, e) p \<noteq> Rejected x"
  by (cases e; cases p) (simp_all add: resolve_def)

lemma deliver_http_not_rejected:
  "\<forall>x. p \<noteq> Rejected x \<Longrightarrow> \<forall>x. deliver_http es p \<noteq> Rejected x"
proof (induction es arbitrary: p)
  case Nil
  then show ?case by simp
next
  case (Cons a es)
  obtain t e where a: "a = (t, e)" by (cases a)
  from Cons.IH [OF http_handler_not_rejected [OF Cons.prems, of t e]] a
  show ?case by simp
qed

lemma socket_handler_settled:
  "result s = Resolved u b \<Longrightarrow> result (socket_handler (t, e) s) = Resolved u b"
  by (cases e) (simp_all add: onError_def)

lemma deliver_socket_settled:
  "result s = Resolved u b \<Longrightarrow> result (deliver_socket es s) = Resolved u b"
proof (induction es arbitrary: s)
  case Nil
  then show ?case by simp
next
  case (Cons x es)
  then show ?case by (cases x) (simp add: socket_handler_settled)
qed

lemma socket_handler_first:
  "result (socket_handler (t, e) new_socket) = Resolved t (e = Connect)"
  by (cases e) (simp_all add: new_socket_def onError_def)

lemma deliver_socket_first:
  "result (deliver_socket ((t, e) # es) new_socket) = Resolved t (e = Connect)"
  by (simp add: deliver_socket_settled [OF socket_handler_first])

lemma socket_settles:
  "\<exists>t b. result (deliver_socket (socket_events d tr) new_socket) = Resolved t b"
proof (cases tr)
  case Nil
  then show ?thesis using deliver_socket_first [of d Socket_timeout "[]"]
    by (auto simp del: deliver_socket.simps)
next
  case (Cons x rest)
  obtain t h where x: "x = (t, h)" by (cases x)
  show ?thesis
  proof (cases "d \<le> t")
    case True
    then show ?thesis using Cons x deliver_socket_first [of d Socket_timeout "[]"]
      by (auto simp del: deliver_socket.simps)
  next
    case False
    then show ?thesis using Cons x deliver_socket_first
      by (cases h) (auto simp del: deliver_socket.simps)
  qed
qed

lemma socket_unreachable:
  "result (deliver_socket (socket_events d []) new_socket) = Resolved d False"
  "d \<le> t \<Longrightarrow>
   result (deliver_socket (socket_events d ((t, h) # rest)) new_socket) = Resolved d False"
  "t < d \<Longrightarrow>
   result (deliver_socket (socket_events d ((t, Broken) # rest)) new_socket) = Resolved t False"
  using deliver_socket_first [of d Socket_timeout "[]"]
    deliver_socket_first [of t Socket_error "[]"]
  by (simp_all del: deliver_socket.simps)

lemma endless_pending:
  "t < d \<Longrightarrow> deliver_http (request_events d ((t, Bytes_forever) # rest)) Pending = Pending"
  by simp

lemma isServerRunning_probed:
  "probe_done (calls w) tr t0 (isServerRunning w) =
     (case checkIfServerRunning (\<lambda>p. tr) (serverPort (mgr w)) of
        Pending \<Rightarrow> isServerRunning w
      | Resolved t b \<Rightarrow> settle (calls w) (Fulfilled (Bool_val b)) (isServerRunning w)
      | Rejected x \<Rightarrow> settle (calls w) (Rejected_with Bad_port) (isServerRunning w))"
  by (simp add: model_defs split: promise.splits)

text \<open>
  Claim C8, against the code: for the port 70000, which the unbounded setting allows,
  the probe is rejected, and so is the \<open>isServerRunning\<close> that returns it. For a valid
  port from which nothing comes back the probe is fulfilled only when the timeout of
  1000 ms has run out, not earlier; and against a peer that accepts the connection and
  keeps sending without ever completing a response the idle timer never fires and the
  probe stays pending.
\<close>

theorem probe_bad_port_counterexample:
  "checkIfServerRunning (\<lambda>p. []) 70000 = Rejected ''ERR_SOCKET_BAD_PORT''
   \<and> checkIfServerRunning_socket (\<lambda>p. []) 70000 = Rejected ''ERR_SOCKET_BAD_PORT''
   \<and> outcome (run [Call_startServer False, Call_isServerRunning, Probed 1 [] 0]
        (init_world \<lparr>cfg_serverPort = 70000, cfg_nodejsPath = []\<rparr>)) 1
       = Some (Rejected_with Bad_port)
   \<and> checkIfServerRunning (\<lambda>p. []) 3000 = Resolved 1000 False
   \<and> checkIfServerRunning (\<lambda>p. [(5, Bytes_forever)]) 3000 = Pending"
  by (simp add: checkIfServerRunning_def checkIfServerRunning_socket_def valid_port_def
      probe_timeout_def model_defs init_world_def Let_def)

text \<open>
  Claim C8 as amended. For a valid port (an integer from 0 to 65535) the probe is
  never rejected, in both revisions, and unless the peer keeps sending for ever without
  completing a response it is fulfilled with a boolean; so is the \<open>isServerRunning\<close>
  call, which returns the probe of the cached port. When the connection fails, or
  nothing has come back when the timeout of 1000 ms runs out, the boolean is \<open>false\<close>
  and the probe is fulfilled at that moment, no later than the timeout; a response
  that arrives before the timeout gives \<open>true\<close> exactly when its status is 200.
\<close>

theorem probe_settles_with_boolean:
  assumes "valid_port port"
  shows "(\<forall>x. checkIfServerRunning net port \<noteq> Rejected x)
    \<and> (falls_silent (net port) \<longrightarrow> (\<exists>t b. checkIfServerRunning net port = Resolved t b))
    \<and> (\<exists>t b. checkIfServerRunning_socket snet port = Resolved t b)
    \<and> (net port = [] \<longrightarrow> checkIfServerRunning net port = Resolved probe_timeout False)
    \<and> (\<forall>t h rest. net port = (t, h) # rest \<and> probe_timeout \<le> t \<longrightarrow>
          checkIfServerRunning net port = Resolved probe_timeout False)
    \<and> (\<forall>t rest. net port = (t, Failure) # rest \<and> t < probe_timeout \<longrightarrow>
          checkIfServerRunning net port = Resolved t False)
    \<and> (\<forall>t code rest. net port = (t, Reply code) # rest \<and> t < probe_timeout \<longrightarrow>
          checkIfServerRunning net port = Resolved t (code = 200))
    \<and> (snet port = [] \<longrightarrow> checkIfServerRunning_socket snet port = Resolved probe_timeout False)
    \<and> (\<forall>t h rest. snet port = (t, h) # rest \<and> probe_timeout \<le> t \<longrightarrow>
          checkIfServerRunning_socket snet port = Resolved probe_timeout False)
    \<and> (\<forall>t rest. snet port = (t, Broken) # rest \<and> t < probe_timeout \<longrightarrow>
          checkIfServerRunning_socket snet port = Resolved t False)
    \<and> (\<forall>(w::world) tr t0. serverPort (mgr w) = port \<and> falls_silent tr \<longrightarrow>
          (\<exists>t b. checkIfServerRunning (\<lambda>p. tr) port = Resolved t b
             \<and> outcome (run [Call_isServerRunning, Probed (calls w) tr t0] w) (calls w)
                 = Some (Fulfilled (Bool_val b))))"
proof -
  have http: "checkIfServerRunning n port = deliver_http (request_events probe_timeout (n port)) Pending"
    for n using assms by (simp add: checkIfServerRunning_def)
  have sock: "checkIfServerRunning_socket snet port
      = result (deliver_socket (socket_events probe_timeout (snet port)) new_socket)"
    using assms by (simp add: checkIfServerRunning_socket_def)
  have 0: "\<forall>x. checkIfServerRunning net port \<noteq> Rejected x"
    unfolding http by (rule deliver_http_not_rejected) simp
  have 1: "falls_silent (net port) \<longrightarrow> (\<exists>t b. checkIfServerRunning net port = Resolved t b)"
    unfolding http using request_settles by blast
  have 2: "\<exists>t b. checkIfServerRunning_socket snet port = Resolved t b"
    unfolding sock by (rule socket_settles)
  have 3: "net port = [] \<longrightarrow> checkIfServerRunning net port = Resolved probe_timeout False"
    unfolding http by (auto simp: request_events_silent)
  have 4: "\<forall>t h rest. net port = (t, h) # rest \<and> probe_timeout \<le> t \<longrightarrow>
          checkIfServerRunning net port = Resolved probe_timeout False"
    unfolding http by (auto simp: request_events_late simp del: request_events.simps)
  have 5: "\<forall>t rest. net port = (t, Failure) # rest \<and> t < probe_timeout \<longrightarrow>
          checkIfServerRunning net port = Resolved t False"
    unfolding http by (auto simp: request_events_failure simp del: request_events.simps)
  have 6: "\<forall>t code rest. net port = (t, Reply code) # rest \<and> t < probe_timeout \<longrightarrow>
          checkIfServerRunning net port = Resolved t (code = 200)"
    unfolding http by (auto simp: request_events_reply simp del: request_events.simps)
  have 7: "snet port = [] \<longrightarrow> checkIfServerRunning_socket snet port = Resolved probe_timeout False"
    unfolding sock using socket_unreachable(1) by auto
  have 8: "\<forall>t h rest. snet port = (t, h) # rest \<and> probe_timeout \<le> t \<longrightarrow>
          checkIfServerRunning_socket snet port = Resolved probe_timeout False"
    unfolding sock using socket_unreachable(2) by auto
  have 9: "\<forall>t rest. snet port = (t, Broken) # rest \<and> t < probe_timeout \<longrightarrow>
          checkIfServerRunning_socket snet port = Resolved t False"
    unfolding sock using socket_unreachable(3) by auto
  have 10: "\<forall>(w::world) tr t0. serverPort (mgr w) = port \<and> falls_silent tr \<longrightarrow>
          (\<exists>t b. checkIfServerRunning (\<lambda>p. tr) port = Resolved t b
             \<and> outcome (run [Call_isServerRunning, Probed (calls w) tr t0] w) (calls w)
                 = Some (Fulfilled (Bool_val b)))"
  proof (intro allI impI)
    fix w :: world and tr t0
    assume pq: "serverPort (mgr w) = port \<and> falls_silent tr"
    then have p: "serverPort (mgr w) = port" and q: "falls_silent tr" by simp_all
    obtain t b where r: "checkIfServerRunning (\<lambda>p. tr) port = Resolved t b"
      using request_settles [OF q, of probe_timeout] http [of "\<lambda>p. tr"] by auto
    have "outcome (run [Call_isServerRunning, Probed (calls w) tr t0] w) (calls w)
            = Some (Fulfilled (Bool_val b))"
      using r p by (simp add: isServerRunning_probed) (simp add: settle_def)
    with r show "\<exists>t b. checkIfServerRunning (\<lambda>p. tr) port = Resolved t b
             \<and> outcome (run [Call_isServerRunning, Probed (calls w) tr t0] w) (calls w)
                 = Some (Fulfilled (Bool_val b))" by blast
  qed
  from 0 1 2 3 4 5 6 7 8 9 10 show ?thesis by blast
qed

theorem probe_settles_with_boolean_witness:
  "valid_port 3000
   \<and> checkIfServerRunning (\<lambda>p. []) 3000 = Resolved 1000 False
   \<and> checkIfServerRunning (\<lambda>p. [(3, Failure)]) 3000 = Resolved 3 False
   \<and> checkIfServerRunning (\<lambda>p. [(40, Reply 200)]) 3000 = Resolved 40 True
   \<and> checkIfServerRunning (\<lambda>p. [(40, Reply 404)]) 3000 = Resolved 40 False
   \<and> checkIfServerRunning_socket (\<lambda>p. [(2, Broken)]) 3000 = Resolved 2 False
   \<and> checkIfServerRunning_socket (\<lambda>p. []) 3000 = Resolved 1000 False"
proof -
  have v: "valid_port 3000" by (simp add: valid_port_def)
  note t1 = probe_settles_with_boolean [OF v, of "\<lambda>p. []" "\<lambda>p. []"]
  note t2 = probe_settles_with_boolean [OF v, of "\<lambda>p. [(3, Failure)]" "\<lambda>p. [(2, Broken)]"]
  note t3 = probe_settles_with_boolean [OF v, of "\<lambda>p. [(40, Reply 200)]" "\<lambda>p. []"]
  note t4 = probe_settles_with_boolean [OF v, of "\<lambda>p. [(40, Reply 404)]" "\<lambda>p. []"]
  show ?thesis using v t1 t2 t3 t4 by (simp add: probe_timeout_def)
qed

section \<open>Properties of project detection\<close>

lemma check_folders_total: "\<exists>b. check_folders fs = Inr b"
  by (induction fs) (auto split: sum.splits)

lemma check_folders_skip:
  "steps f \<noteq> Directory \<Longrightarrow> package_json f = Malformed \<Longrightarrow>
   check_folders (pre @ f # post) = check_folders (pre @ post)"
  by (induction pre) (auto simp: hasMotiaDependency_def split: sum.splits)

text \<open>
  Claim C10. \<open>isMotiaProject\<close> returns \<open>false\<close> when the workspace has no folders
  (\<open>undefined\<close> or an empty array), it returns a boolean for every workspace (no
  exception leaves it), and a folder without a \<open>steps\<close> directory whose \<open>package.json\<close>
  exists but does not parse changes nothing: the answer is the one for the workspace
  without that folder, so the folders after it are still examined.
\<close>

theorem isMotiaProject_total:
  "isMotiaProject None = Inr False
   \<and> isMotiaProject (Some []) = Inr False
   \<and> (\<exists>b. isMotiaProject workspaceFolders = Inr b)
   \<and> (steps f \<noteq> Directory \<and> package_json f = Malformed \<longrightarrow>
        isMotiaProject (Some (pre @ f # post)) = isMotiaProject (Some (pre @ post)))"
proof -
  have "\<exists>b. isMotiaProject workspaceFolders = Inr b"
    using check_folders_total by (cases workspaceFolders) (auto simp: isMotiaProject_def)
  moreover have "steps f \<noteq> Directory \<and> package_json f = Malformed \<longrightarrow>
        isMotiaProject (Some (pre @ f # post)) = isMotiaProject (Some (pre @ post))"
    using check_folders_skip [of f pre post] by (auto simp: isMotiaProject_def)
  ultimately show ?thesis by (simp add: isMotiaProject_def)
qed

theorem isMotiaProject_total_witness:
  "isMotiaProject (Some ([\<lparr>steps = Plain_file, package_json = No_manifest\<rparr>]
       @ \<lparr>steps = Missing, package_json = Malformed\<rparr>
       # [\<lparr>steps = Missing, package_json =
            Parsed (JObject [(''name'', JString ''app''),
              (''dependencies'', JObject [(''@motiadev/core'', JString ''^0.1.0'')])])\<rparr>]))
    = Inr True"
  using isMotiaProject_total [of None "\<lparr>steps = Missing, package_json = Malformed\<rparr>"
      "[\<lparr>steps = Plain_file, package_json = No_manifest\<rparr>]"
      "[\<lparr>steps = Missing, package_json =
            Parsed (JObject [(''name'', JString ''app''),
              (''dependencies'', JObject [(''@motiadev/core'', JString ''^0.1.0'')])])\<rparr>]"]
  by (simp add: isMotiaProject_def hasMotiaDependency_def is_motia_dep_def startsWith_def)

section \<open>Properties of the server manager\<close>

lemmas world_defs = model_defs init_world_def default_settings_def maxStartupTime_def

subsection \<open>Events of other calls\<close>



subsection \<open>Stopping\<close>

lemma stop_call_without_terminal:
  assumes "terminal (mgr w) = None"
  shows "mgr (step Call_stopServer w) = mgr w"
    and "live (step Call_stopServer w) = live w"
    and "calls (step Call_stopServer w) = Suc (calls w)"
    and "tasks (step Call_stopServer w) (calls w) = Some Stop_probing"
    and "probing (step Call_stopServer w) (calls w) = Some (serverPort (mgr w))"
    and "effects (step Call_stopServer w)
           = effects w @ [Show Info_none_running, Probe (serverPort (mgr w))]"
  using assms by (simp_all add: model_defs Let_def)

lemma stop_completes:
  assumes "tasks v c = Some Stop_probing"
  shows "mgr (step (Settle c b now) v) = mgr v"
    and "live (step (Settle c b now) v) = live v"
    and "calls (step (Settle c b now) v) = calls v"
    and "outcome (step (Settle c b now) v) c = Some (Fulfilled Void_val)"
    and "effects (step (Settle c b now) v)
           = effects v @ (if b then [Show (Warn_still_running (serverPort (mgr v)))] else [])"
  using assms by (simp_all add: model_defs Let_def)

lemma valid_probe:
  assumes "valid_port port" and "falls_silent tr"
  shows "checkIfServerRunning (\<lambda>p. tr) port = Resolved (probe_time tr) (probe_answer tr)"
proof -
  obtain t b where "deliver_http (request_events probe_timeout tr) Pending = Resolved t b"
    using request_settles [OF assms(2)] by blast
  then show ?thesis using assms
    by (simp add: checkIfServerRunning_def probe_time_def probe_answer_def)
qed

lemma probed_is_settle:
  assumes "tasks v c = Some k" and "awaits_probe k" and "probing v c = Some port"
    and "valid_port port" and "falls_silent tr"
  shows "step (Probed c tr t0) v = step (Settle c (probe_answer tr) (t0 + probe_time tr)) v"
  using assms by (simp add: probe_done_def valid_probe)

lemma stop_once_without_terminal:
  assumes "terminal (mgr w) = None" and "valid_port (serverPort (mgr w))"
    and "falls_silent tr"
  shows "mgr (run [Call_stopServer, Probed (calls w) tr t0] w) = mgr w"
    and "live (run [Call_stopServer, Probed (calls w) tr t0] w) = live w"
    and "calls (run [Call_stopServer, Probed (calls w) tr t0] w) = Suc (calls w)"
    and "outcome (run [Call_stopServer, Probed (calls w) tr t0] w) (calls w)
           = Some (Fulfilled Void_val)"
    and "effects (run [Call_stopServer, Probed (calls w) tr t0] w)
           = effects w @ [Show Info_none_running, Probe (serverPort (mgr w))]
               @ (if probe_answer tr then [Show (Warn_still_running (serverPort (mgr w)))]
                  else [])"
proof -
  note c = stop_call_without_terminal [OF assms(1)]
  have e: "step (Probed (calls w) tr t0) (step Call_stopServer w)
      = step (Settle (calls w) (probe_answer tr) (t0 + probe_time tr)) (step Call_stopServer w)"
    using probed_is_settle [OF c(4) _ c(5) assms(2,3)] by simp
  have r: "run [Call_stopServer, Probed (calls w) tr t0] w
      = step (Settle (calls w) (probe_answer tr) (t0 + probe_time tr)) (step Call_stopServer w)"
    by (simp only: run.simps e)
  note d = stop_completes [OF c(4), of "probe_answer tr" "t0 + probe_time tr"]
  show "mgr (run [Call_stopServer, Probed (calls w) tr t0] w) = mgr w"
    and "live (run [Call_stopServer, Probed (calls w) tr t0] w) = live w"
    and "calls (run [Call_stopServer, Probed (calls w) tr t0] w) = Suc (calls w)"
    and "outcome (run [Call_stopServer, Probed (calls w) tr t0] w) (calls w)
           = Some (Fulfilled Void_val)"
    and "effects (run [Call_stopServer, Probed (calls w) tr t0] w)
           = effects w @ [Show Info_none_running, Probe (serverPort (mgr w))]
               @ (if probe_answer tr then [Show (Warn_still_running (serverPort (mgr w)))]
                  else [])"
    using c d unfolding r by (simp_all del: step.simps)
qed

text \<open>
  Claim C7, against the code: the setting \<open>serverPort\<close> is 70000 and a \<open>startServer\<close>
  has stored it as the cached port (its own probe throws and the call is abandoned,
  with no terminal). The \<open>stopServer\<close> made then owns no terminal; its probe of port
  70000 is rejected inside the async executor, so the call is abandoned too: it has
  neither resolved nor rejected and nothing is left that could settle it. And with the
  default port, no terminal owned and a peer that keeps sending without completing a
  response, the probe of \<open>stopServer\<close> stays pending and the call with it.
\<close>

theorem stop_bad_port_counterexample:
  "(let w = run [Call_startServer False, Probed 0 [] 0]
              (init_world \<lparr>cfg_serverPort = 70000, cfg_nodejsPath = []\<rparr>);
        w' = run [Call_stopServer, Probed 1 [] 5] w;
        v' = run [Call_stopServer, Probed 0 [(5, Bytes_forever)] 0] (init_world default_settings)
    in terminal (mgr w) = None \<and> serverPort (mgr w) = 70000
       \<and> outcome w' 1 = None \<and> tasks w' 1 = None \<and> mgr w' = mgr w
       \<and> outcome v' 0 = None \<and> tasks v' 0 = Some Stop_probing)"
  by (simp add: model_defs init_world_def default_settings_def Let_def
      checkIfServerRunning_def valid_port_def probe_timeout_def)

text \<open>
  Claim C7 as amended. In a state with no owned terminal and a valid cached port (an
  integer from 0 to 65535), and with a peer that does not keep sending for ever,
  \<open>stopServer\<close> resolves (with no value) whatever its probe finds, reports that no
  server is running, and leaves the static fields and the live terminals as they
  were; a second \<open>stopServer\<close> right after it does the same again.
  Neither the call of \<open>stopServer\<close> without a terminal nor the completion of any
  \<open>stopServer\<close> changes a static field.
\<close>

theorem stopServer_without_terminal:
  assumes "terminal (mgr w) = None" and "valid_port (serverPort (mgr w))"
    and "falls_silent tr" and "falls_silent tr'"
  shows "(let w1 = run [Call_stopServer, Probed (calls w) tr t0] w;
              w2 = run [Call_stopServer, Probed (calls w1) tr' t0'] w1
          in mgr w1 = mgr w \<and> live w1 = live w
             \<and> outcome w1 (calls w) = Some (Fulfilled Void_val)
             \<and> effects w1 = effects w @ [Show Info_none_running, Probe (serverPort (mgr w))]
                   @ (if probe_answer tr
                      then [Show (Warn_still_running (serverPort (mgr w)))] else [])
             \<and> mgr w2 = mgr w \<and> live w2 = live w
             \<and> outcome w2 (calls w1) = Some (Fulfilled Void_val)
             \<and> effects w2 = effects w1 @ [Show Info_none_running, Probe (serverPort (mgr w))]
                   @ (if probe_answer tr'
                      then [Show (Warn_still_running (serverPort (mgr w)))] else []))
       \<and> mgr (step Call_stopServer w) = mgr w \<and> live (step Call_stopServer w) = live w
       \<and> (\<forall>v c b now. tasks v c = Some Stop_probing \<longrightarrow>
             mgr (step (Settle c b now) v) = mgr v \<and> live (step (Settle c b now) v) = live v
             \<and> outcome (step (Settle c b now) v) c = Some (Fulfilled Void_val))"
proof -
  let ?w1 = "run [Call_stopServer, Probed (calls w) tr t0] w"
  note first = stop_once_without_terminal [OF assms(1,2,3), of t0]
  have t1: "terminal (mgr ?w1) = None" "valid_port (serverPort (mgr ?w1))"
    using first(1) assms by simp_all
  note second = stop_once_without_terminal [OF t1 assms(4), of t0']
  have seq: "let w1 = run [Call_stopServer, Probed (calls w) tr t0] w;
              w2 = run [Call_stopServer, Probed (calls w1) tr' t0'] w1
          in mgr w1 = mgr w \<and> live w1 = live w
             \<and> outcome w1 (calls w) = Some (Fulfilled Void_val)
             \<and> effects w1 = effects w @ [Show Info_none_running, Probe (serverPort (mgr w))]
                   @ (if probe_answer tr
                      then [Show (Warn_still_running (serverPort (mgr w)))] else [])
             \<and> mgr w2 = mgr w \<and> live w2 = live w
             \<and> outcome w2 (calls w1) = Some (Fulfilled Void_val)
             \<and> effects w2 = effects w1 @ [Show Info_none_running, Probe (serverPort (mgr w))]
                   @ (if probe_answer tr'
                      then [Show (Warn_still_running (serverPort (mgr w)))] else [])"
    unfolding Let_def using first(1,2,4,5) second(1,2,4,5) by simp
  have compl: "\<forall>v c b now. tasks v c = Some Stop_probing \<longrightarrow>
             mgr (step (Settle c b now) v) = mgr v \<and> live (step (Settle c b now) v) = live v
             \<and> outcome (step (Settle c b now) v) c = Some (Fulfilled Void_val)"
    using stop_completes by blast
  from seq compl stop_call_without_terminal(1,2) [OF assms(1)] show ?thesis by blast
qed

theorem stopServer_without_terminal_witness:
  "(let w = run [Call_startServer False, Settle 0 True 0] (init_world default_settings);
        w1 = run [Call_stopServer, Probed 1 [(4, Reply 200)] 5] w;
        w2 = run [Call_stopServer, Probed 2 [] 9] w1
    in terminal (mgr w) = None \<and> valid_port (serverPort (mgr w))
       \<and> falls_silent [(4, Reply 200)] \<and> falls_silent [] \<and> getServerStatus w = True
       \<and> getServerStatus w1 = True \<and> outcome w1 1 = Some (Fulfilled Void_val)
       \<and> getServerStatus w2 = True \<and> outcome w2 2 = Some (Fulfilled Void_val))"
proof -
  let ?w = "run [Call_startServer False, Settle 0 True 0] (init_world default_settings)"
  have h: "terminal (mgr ?w) = None" "valid_port (serverPort (mgr ?w))" "calls ?w = 1"
    "getServerStatus ?w = True"
    by (simp_all add: world_defs Let_def valid_port_def)
  have q: "falls_silent [(4, Reply 200)]" "falls_silent []"
    by (simp_all add: falls_silent_def)
  note t = stopServer_without_terminal [OF h(1,2) q, of 5 9, THEN conjunct1]
  have c1: "calls (run [Call_stopServer, Probed 1 [(4, Reply 200)] 5] ?w) = 2"
    using stop_once_without_terminal(3) [OF h(1,2) q(1), of 5] h(3) by simp
  show ?thesis
    using t h q unfolding Let_def h(3) c1 by (simp add: getServerStatus_def)
qed

text \<open>
  Claim C6, against the code: after adopting a listener it did not start (the running
  flag set, no terminal owned), \<open>stopServer\<close> completes and \<open>getServerStatus\<close> still
  returns \<open>true\<close>.
\<close>

theorem stop_after_adoption_counterexample:
  "getServerStatus (run [Call_startServer False, Settle 0 True 0, Call_stopServer, Settle 1 True 5]
      (init_world default_settings)) = True"
  by (simp add: world_defs Let_def)

text \<open>
  Claim C6 as amended. When \<open>stopServer\<close> is called, no terminal is owned from that
  moment; if a terminal was owned it has been disposed and \<open>getServerStatus\<close> returns
  \<open>false\<close>; if none was owned the running flag is what it was before. The completion
  of \<open>stopServer\<close>, when its probe has answered, resolves the call and changes no static
  field and no terminal, in whatever state it happens. So when no other call runs
  between the call of \<open>stopServer\<close> and its completion, this is the state after it has
  completed.
\<close>

theorem stopServer_final_state:
  "(let w1 = step Call_stopServer w
    in terminal (mgr w1) = None
       \<and> getServerStatus w1 = (terminal (mgr w) = None \<and> getServerStatus w)
       \<and> tasks w1 (calls w) = Some Stop_probing
       \<and> (\<forall>t. terminal (mgr w) = Some t \<longrightarrow>
             t \<notin> set (live w1) \<and> Dispose_terminal t \<in> set (effects w1)))
   \<and> (\<forall>v c b now. tasks v c = Some Stop_probing \<longrightarrow>
         mgr (step (Settle c b now) v) = mgr v \<and> live (step (Settle c b now) v) = live v
         \<and> outcome (step (Settle c b now) v) c = Some (Fulfilled Void_val))
   \<and> (let w' = run [Call_stopServer, Settle (calls w) b now] w
      in terminal (mgr w') = None
         \<and> outcome w' (calls w) = Some (Fulfilled Void_val)
         \<and> getServerStatus w' = (terminal (mgr w) = None \<and> getServerStatus w)
         \<and> (\<forall>t. terminal (mgr w) = Some t \<longrightarrow>
               t \<notin> set (live w') \<and> Dispose_terminal t \<in> set (effects w')))"
proof -
  have call: "let w1 = step Call_stopServer w
    in terminal (mgr w1) = None
       \<and> getServerStatus w1 = (terminal (mgr w) = None \<and> getServerStatus w)
       \<and> tasks w1 (calls w) = Some Stop_probing
       \<and> (\<forall>t. terminal (mgr w) = Some t \<longrightarrow>
             t \<notin> set (live w1) \<and> Dispose_terminal t \<in> set (effects w1))"
    by (cases "terminal (mgr w)") (auto simp: model_defs Let_def)
  have compl: "\<forall>v c b now. tasks v c = Some Stop_probing \<longrightarrow>
         mgr (step (Settle c b now) v) = mgr v \<and> live (step (Settle c b now) v) = live v
         \<and> outcome (step (Settle c b now) v) c = Some (Fulfilled Void_val)"
    using stop_completes by blast
  have seq: "let w' = run [Call_stopServer, Settle (calls w) b now] w
      in terminal (mgr w') = None
         \<and> outcome w' (calls w) = Some (Fulfilled Void_val)
         \<and> getServerStatus w' = (terminal (mgr w) = None \<and> getServerStatus w)
         \<and> (\<forall>t. terminal (mgr w) = Some t \<longrightarrow>
               t \<notin> set (live w') \<and> Dispose_terminal t \<in> set (effects w'))"
    by (cases "terminal (mgr w)") (auto simp: model_defs Let_def)
  from call compl seq show ?thesis by blast
qed

theorem stopServer_final_state_witness:
  "(let w = run [Call_startServer False, Settle 0 False 0, Settle 0 True 5]
              (init_world default_settings);
        w1 = step Call_stopServer w;
        w' = run [Call_stopServer, Settle 1 False 9] w
    in terminal (mgr w) = Some 0 \<and> live w = [0]
       \<and> terminal (mgr w1) = None \<and> getServerStatus w1 = False \<and> live w1 = []
       \<and> terminal (mgr w') = None \<and> getServerStatus w' = False \<and> live w' = [])"
  using stopServer_final_state
      [of "run [Call_startServer False, Settle 0 False 0, Settle 0 True 5]
             (init_world default_settings)" False 9]
  by (simp add: world_defs Let_def)

subsection \<open>The cached port\<close>

text \<open>
  Claim C9. The static port is 3000 at first; \<open>startServer\<close> overwrites it with the
  setting read at the call and no other event changes it. \<open>isServerRunning\<close> and
  \<open>stopServer\<close> probe this cached port: after the settings have changed they still probe
  the port of the last \<open>startServer\<close>.
\<close>

theorem probes_use_cached_port:
  "serverPort (mgr (init_world cfg)) = 3000
   \<and> serverPort (mgr (step (Call_startServer uri) w)) = cfg_serverPort (config w)
   \<and> ((\<forall>u. e \<noteq> Call_startServer u) \<longrightarrow> serverPort (mgr (step e w)) = serverPort (mgr w))
   \<and> probed (step Call_isServerRunning (step (Update_settings cfg') w))
        = probed w @ [serverPort (mgr w)]
   \<and> probed (step Call_stopServer (step (Update_settings cfg') w))
        = probed w @ [serverPort (mgr w)]"
proof -
  have "(\<forall>u. e \<noteq> Call_startServer u) \<longrightarrow> serverPort (mgr (step e w)) = serverPort (mgr w)"
    by (cases e)
       (auto simp: model_defs Let_def split: option.splits cont.splits promise.splits)
  moreover have "probed (step Call_stopServer (step (Update_settings cfg') w))
        = probed w @ [serverPort (mgr w)]"
    by (cases "terminal (mgr w)") (simp_all add: model_defs Let_def probed_def)
  ultimately show ?thesis
    by (simp add: model_defs Let_def probed_def init_world_def)
qed

theorem probes_use_cached_port_witness:
  "(let w = run [Update_settings \<lparr>cfg_serverPort = 4000, cfg_nodejsPath = []\<rparr>,
                 Call_startServer False, Settle 0 True 0]
              (init_world default_settings);
        w' = step (Update_settings \<lparr>cfg_serverPort = 5000, cfg_nodejsPath = []\<rparr>) w
    in serverPort (mgr w) = 4000
       \<and> probed (step Call_isServerRunning w') = [4000, 4000]
       \<and> probed (step Call_stopServer w') = [4000, 4000])"
  using probes_use_cached_port
      [of default_settings False
          "run [Update_settings \<lparr>cfg_serverPort = 4000, cfg_nodejsPath = []\<rparr>,
                Call_startServer False, Settle 0 True 0] (init_world default_settings)"
          Call_stopServer "\<lparr>cfg_serverPort = 5000, cfg_nodejsPath = []\<rparr>"]
  by (simp add: world_defs Let_def probed_def)

subsection \<open>Starting\<close>




text \<open>
  Claim C2, against the code: two \<open>startServer\<close> calls, each finding the port
  unreachable at its initial probe, leave two live terminals.
\<close>

theorem two_starts_counterexample:
  "live (run [Call_startServer False, Settle 0 False 0, Call_startServer False, Settle 1 False 5]
      (init_world default_settings)) = [0, 1]"
  by (simp add: world_defs Let_def)

text \<open>
  Claim C2 as amended. A \<open>startServer\<close> whose initial probe succeeds resolves \<open>true\<close> and
  creates no terminal. A \<open>startServer\<close> whose initial probe fails creates a new terminal
  and stores it in the one static field, whether or not a terminal is owned already:
  the terminals live before stay live (none is disposed) and the new one is added.
\<close>

theorem startServer_terminal:
  assumes "tasks w c = Some (Start_probing nodejsPath uri)"
  shows "(let w' = step (Settle c True now) w
          in outcome w' c = Some (Fulfilled (Bool_val True))
             \<and> live w' = live w \<and> fresh w' = fresh w \<and> terminal (mgr w') = terminal (mgr w))
       \<and> (let w' = step (Settle c False now) w
          in live w' = live w @ [fresh w] \<and> fresh w' = Suc (fresh w)
             \<and> terminal (mgr w') = Some (fresh w)
             \<and> (\<forall>t. Dispose_terminal t \<in> set (effects w') \<longrightarrow>
                   Dispose_terminal t \<in> set (effects w)))"
  using assms by (auto simp: model_defs Let_def split: option.splits)

theorem startServer_terminal_witness:
  "(let w = run [Call_startServer False, Settle 0 False 0, Settle 0 True 3, Call_startServer False]
              (init_world default_settings)
    in tasks w 1 = Some (Start_probing [] False) \<and> terminal (mgr w) = Some 0 \<and> live w = [0]
       \<and> live (step (Settle 1 True 9) w) = [0] \<and> live (step (Settle 1 False 9) w) = [0, 1]
       \<and> terminal (mgr (step (Settle 1 False 9) w)) = Some 1)"
  using startServer_terminal
      [of "run [Call_startServer False, Settle 0 False 0, Settle 0 True 3, Call_startServer False]
             (init_world default_settings)" 1 "[]" False 9]
  by (simp add: world_defs Let_def)

text \<open>
  Claim C3, the code at the failing input: no custom path, the port unreachable, and
  neither \<open>npx\<close> nor \<open>pnpm\<close> nor \<open>yarn\<close> found. The call rejects with the no-launcher
  error and sends no command, but the terminal it created before looking for a launcher
  is still live and still held in the static field.
\<close>

theorem startServer_no_launcher:
  "(let w = run [Call_startServer False, Settle 0 False 0, Settle 0 False 5, Settle 0 False 10,
                 Settle 0 False 15] (init_world default_settings)
    in outcome w 0 = Some (Rejected_with No_package_manager)
       \<and> terminal (mgr w) = Some 0 \<and> live w = [0] \<and> sent w = []
       \<and> getServerStatus w = False)"
  by (simp add: world_defs Let_def sent_def)

subsection \<open>Stopping while a start polls\<close>









subsection \<open>The startup timeout\<close>






end
